theory Spec2Isabelle
  imports Complex_Main "HOL-Library.Sublist"
begin

section \<open>The player hook: state, handlers and the controls-hide timer\<close>

text \<open>
  Source: the hook \<open>useVideoPlayer\<close> (\<open>hooks/useVideoPlayer.ts\<close>). JavaScript numbers
  are modelled as exact reals. A numeric slot that can hold \<open>undefined\<close> (the first element
  of an empty array, \<open>value[0]\<close>) is a \<open>real option\<close>, \<open>None\<close> being \<open>undefined\<close>;
  an arithmetic result on \<open>undefined\<close> is \<open>NaN\<close>, again \<open>None\<close>.
\<close>

record VideoPlayerState =
  playing :: bool
  volume :: "real option"
  muted :: bool
  played :: "real option"
  duration :: real
  showControls :: bool
  error :: "string option"
  playbackRate :: real
  loading :: bool
  buffering :: bool

definition initialState :: VideoPlayerState where
  "initialState =
     \<lparr>playing = False, volume = Some (8 / 10), muted = True, played = Some 0, duration = 0,
      showControls = True, error = None, playbackRate = 1, loading = True, buffering = False\<rparr>"

text \<open>\<open>value[0]\<close> of a JavaScript array: \<open>undefined\<close> on the empty array.\<close>

fun index0 :: "'a list \<Rightarrow> 'a option" where
  "index0 [] = None"
| "index0 (x # _) = Some x"

text \<open>
  \<open>handleVolumeChange\<close>: store the new volume; the strict comparison \<open>newVolume === 0\<close>
  is false on \<open>undefined\<close>.
\<close>

definition handleVolumeChange :: "VideoPlayerState \<Rightarrow> real list \<Rightarrow> VideoPlayerState" where
  "handleVolumeChange s val =
     (let newVolume = index0 val;
          s1 = s\<lparr>volume := newVolume\<rparr>
      in if newVolume = Some 0 then s1\<lparr>muted := True\<rparr>
         else if muted s then s1\<lparr>muted := False\<rparr>
         else s1)"

text \<open>
  The Vimeo adapter (\<open>components/VimeoPlayer.tsx\<close>) keeps the same fields in separate
  state cells and forwards the volume to the remote player when one is attached.
\<close>

record VimeoState =
  v_playing :: bool
  v_volume :: "real option"
  v_muted :: bool
  v_played :: "real option"
  v_duration :: real
  v_showControls :: bool

datatype vimeo_call = SetVolume "real option" | SetCurrentTime "real option" | Play | Pause

definition vimeo_handleVolumeChange ::
  "bool \<Rightarrow> VimeoState \<Rightarrow> real list \<Rightarrow> VimeoState \<times> vimeo_call list" where
  "vimeo_handleVolumeChange player s val =
     (let newVolume = index0 val;
          s1 = s\<lparr>v_volume := newVolume\<rparr>;
          calls = (if player then [SetVolume newVolume] else [])
      in if newVolume = Some 0 then (s1\<lparr>v_muted := True\<rparr>, calls)
         else if v_muted s then (s1\<lparr>v_muted := False\<rparr>, calls)
         else (s1, calls))"

text \<open>
  \<open>handleSeek\<close>: the played fraction is stored as given; when a player is attached and the
  known duration is positive, \<open>seekTo * state.duration\<close> is forwarded to the player's
  \<open>seekTo(_, 'seconds')\<close>. An exception of the player is caught and logged, the state is
  kept. The second component lists the calls made on the player.
\<close>

datatype player_call = SeekTo "real option"

definition handleSeek ::
  "bool \<Rightarrow> VideoPlayerState \<Rightarrow> real list \<Rightarrow> VideoPlayerState \<times> player_call list" where
  "handleSeek player s val =
     (let seekTo = index0 val;
          s1 = s\<lparr>played := seekTo\<rparr>
      in if player \<and> duration s > 0
         then (let seekTime = map_option (\<lambda>f. f * duration s) seekTo
               in (s1, [SeekTo seekTime]))
         else (s1, []))"

definition vimeo_handleSeek ::
  "bool \<Rightarrow> VimeoState \<Rightarrow> real list \<Rightarrow> VimeoState \<times> vimeo_call list" where
  "vimeo_handleSeek player s val =
     (let seekTo = index0 val;
          s1 = s\<lparr>v_played := seekTo\<rparr>
      in if player
         then (let seekTime = map_option (\<lambda>f. f * v_duration s) seekTo
               in (s1, [SetCurrentTime seekTime]))
         else (s1, []))"

subsection \<open>Timers\<close>

text \<open>
  The browser's timer table: \<open>setTimeout\<close> returns a fresh positive handle and records
  the due time, \<open>clearTimeout\<close> removes the handle if it is pending and does nothing
  otherwise. Every timer of the hook runs the same callback, \<open>setShowControls(false)\<close>.
  A handle is truthy, so the test \<open>if (controlsTimeoutRef.current)\<close> asks whether the ref
  holds one; the ref starts as \<open>null\<close> and is never reset.
\<close>

record timers =
  clock :: nat
  next_handle :: nat
  pending :: "(nat \<times> nat) list"

definition setTimeout :: "timers \<Rightarrow> nat \<Rightarrow> nat \<times> timers" where
  "setTimeout t delay =
     (next_handle t,
      t\<lparr>next_handle := Suc (next_handle t),
        pending := pending t @ [(next_handle t, clock t + delay)]\<rparr>)"

definition clearTimeout :: "timers \<Rightarrow> nat \<Rightarrow> timers" where
  "clearTimeout t h = t\<lparr>pending := filter (\<lambda>(h', _). h' \<noteq> h) (pending t)\<rparr>"

record player_instance =
  state :: VideoPlayerState
  controlsTimeoutRef :: "nat option"
  tm :: timers

definition mount :: player_instance where
  "mount = \<lparr>state = initialState, controlsTimeoutRef = None,
            tm = \<lparr>clock = 0, next_handle = 1, pending = []\<rparr>\<rparr>"

definition handleVideoClick :: "player_instance \<Rightarrow> player_instance" where
  "handleVideoClick p =
     (let s1 = (state p)\<lparr>playing := \<not> playing (state p)\<rparr>;
          s2 = s1\<lparr>showControls := True\<rparr>;
          t1 = (case controlsTimeoutRef p of
                  Some h \<Rightarrow> clearTimeout (tm p) h
                | None \<Rightarrow> tm p);
          (h, t2) = setTimeout t1 3000
      in \<lparr>state = s2, controlsTimeoutRef = Some h, tm = t2\<rparr>)"

text \<open>
  \<open>handleLoad(data?)\<close>: \<open>ld\<close> is \<open>data.duration\<close> when \<open>data\<close> is given and that field
  is truthy (a number other than 0), \<open>None\<close> otherwise.
\<close>

definition handleLoad :: "player_instance \<Rightarrow> real option \<Rightarrow> player_instance" where
  "handleLoad p ld =
     (let s1 = (state p)\<lparr>error := None\<rparr>;
          s2 = s1\<lparr>loading := False\<rparr>;
          s3 = s2\<lparr>buffering := False\<rparr>;
          s4 = s3\<lparr>showControls := True\<rparr>;
          s5 = (case ld of Some d \<Rightarrow> if d \<noteq> 0 then s4\<lparr>duration := d\<rparr> else s4 | None \<Rightarrow> s4);
          (h, t1) = setTimeout (tm p) 3000
      in \<lparr>state = s5, controlsTimeoutRef = Some h, tm = t1\<rparr>)"

text \<open>
  Time passing: the timers that are due at the new clock value fire (each hides the
  controls) and leave the table; the ref keeps the handle it holds.
\<close>

definition advance :: "player_instance \<Rightarrow> nat \<Rightarrow> player_instance" where
  "advance p dt =
     (let now = clock (tm p) + dt;
          due = filter (\<lambda>(_, due_at). due_at \<le> now) (pending (tm p));
          rest = filter (\<lambda>(_, due_at). \<not> due_at \<le> now) (pending (tm p));
          s1 = (if due = [] then state p else (state p)\<lparr>showControls := False\<rparr>)
      in p\<lparr>state := s1, tm := (tm p)\<lparr>clock := now, pending := rest\<rparr>\<rparr>)"

text \<open>The number of hide timers that are pending is read off the table.\<close>

definition pending_hides :: "player_instance \<Rightarrow> nat" where
  "pending_hides p = length (pending (tm p))"

text \<open>The instance owns every pending timer, at most the one its ref holds.\<close>

definition single_timer :: "player_instance \<Rightarrow> bool" where
  "single_timer p =
     (case controlsTimeoutRef p of
        None \<Rightarrow> pending (tm p) = []
      | Some h \<Rightarrow> list_all (\<lambda>(h', _). h' = h) (pending (tm p)) \<and> length (pending (tm p)) \<le> 1)"

section \<open>String helpers of the JavaScript runtime\<close>

text \<open>
  Strings are lists of characters, the code units below 256. \<open>s.includes(t)\<close> is \<open>sublist t s\<close>, \<open>s.endsWith(t)\<close>
  is \<open>suffix t s\<close>, \<open>s.slice(1)\<close> is \<open>drop 1 s\<close>. \<open>toLowerCase\<close> is given on the
  ASCII letters, which is all it changes in a host name or a path of a parsed URL.
\<close>

definition str_includes :: "string \<Rightarrow> string \<Rightarrow> bool" where
  "str_includes s t = sublist t s"

definition endsWith :: "string \<Rightarrow> string \<Rightarrow> bool" where
  "endsWith s t = suffix t s"

definition lower_char :: "char \<Rightarrow> char" where
  "lower_char c =
     (case map_of (zip ''ABCDEFGHIJKLMNOPQRSTUVWXYZ'' ''abcdefghijklmnopqrstuvwxyz'') c of
        Some l \<Rightarrow> l
      | None \<Rightarrow> c)"

definition toLowerCase :: "string \<Rightarrow> string" where
  "toLowerCase s = map lower_char s"

definition is_digit :: "char \<Rightarrow> bool" where
  "is_digit c = (c \<in> set ''0123456789'')"

section \<open>Regular expressions as the patterns of the source use them\<close>

text \<open>
  The patterns of \<open>utils/video-utils.ts\<close> are built from literal text, alternation,
  sequence, a greedy \<open>*\<close> or \<open>+\<close> on a character class, and one capturing group.
  \<open>ms r s c\<close> lists, in the order the backtracking matcher of JavaScript tries them, the
  ways \<open>r\<close> matches at the start of \<open>s\<close>: each is the input left over and the capture
  of group 1 (\<open>None\<close> when the group took no part). The alternatives of \<open>|\<close> come left
  first; a greedy quantifier offers its longest run first.
\<close>

datatype regex =
    Lit string
  | Alt regex regex
  | Seq regex regex
  | Star "char \<Rightarrow> bool"
  | Plus "char \<Rightarrow> bool"
  | Group regex

fun ms :: "regex \<Rightarrow> string \<Rightarrow> string option \<Rightarrow> (string \<times> string option) list" where
  "ms (Lit l) s c = (if prefix l s then [(drop (length l) s, c)] else [])"
| "ms (Alt a b) s c = ms a s c @ ms b s c"
| "ms (Seq a b) s c = concat (map (\<lambda>(s', c'). ms b s' c') (ms a s c))"
| "ms (Star P) s c = map (\<lambda>k. (drop k s, c)) (rev [0 ..< Suc (length (takeWhile P s))])"
| "ms (Plus P) s c = map (\<lambda>k. (drop k s, c)) (rev [1 ..< Suc (length (takeWhile P s))])"
| "ms (Group a) s c =
     map (\<lambda>(s', _). (s', Some (take (length s - length s') s))) (ms a s c)"

text \<open>
  \<open>url.match(pattern)\<close> and \<open>pattern.test(url)\<close> for a pattern without flags: the match
  starts at the leftmost position where the pattern matches, and takes the first way in
  the matcher's order. The result is \<open>None\<close> for \<open>null\<close>, otherwise the element 1 of the
  match array.
\<close>

fun rx_match :: "regex \<Rightarrow> string \<Rightarrow> string option option" where
  "rx_match r [] = (case ms r [] None of [] \<Rightarrow> None | (_, c) # _ \<Rightarrow> Some c)"
| "rx_match r (x # xs) =
     (case ms r (x # xs) None of [] \<Rightarrow> rx_match r xs | (_, c) # _ \<Rightarrow> Some c)"

definition rx_test :: "regex \<Rightarrow> string \<Rightarrow> bool" where
  "rx_test r s = (rx_match r s \<noteq> None)"

text \<open>The classes \<open>[^&\n?#]\<close>, \<open>.\<close> (anything but a line terminator) and \<open>\d\<close>.\<close>

definition id_char :: "char \<Rightarrow> bool" where
  "id_char c = (c \<noteq> CHR ''&'' \<and> c \<noteq> CHR 0x0A \<and> c \<noteq> CHR ''?'' \<and> c \<noteq> CHR ''#'')"

definition dot_char :: "char \<Rightarrow> bool" where
  "dot_char c = (c \<noteq> CHR 0x0A \<and> c \<noteq> CHR 0x0D)"

section \<open>Platform detection by pattern (\<open>utils/video-utils.ts\<close>)\<close>

definition youtube_heads :: regex where
  "youtube_heads =
     Alt (Lit ''youtube.com/watch?v='') (Alt (Lit ''youtu.be/'') (Lit ''youtube.com/embed/''))"

definition youtube_pattern1 :: regex where
  "youtube_pattern1 = Seq youtube_heads (Group (Plus id_char))"

definition youtube_pattern2 :: regex where
  "youtube_pattern2 = Seq (Lit ''youtube.com/v/'') (Group (Plus id_char))"

definition youtube_pattern3 :: regex where
  "youtube_pattern3 =
     Seq (Lit ''youtube.com/watch?'') (Seq (Star dot_char) (Seq (Lit ''v='') (Group (Plus id_char))))"

definition vimeo_pattern :: regex where
  "vimeo_pattern = Seq (Lit ''vimeo.com/'') (Group (Plus is_digit))"

text \<open>
  \<open>extractYouTubeVideoId\<close>: the first pattern of the list that matches decides. The
  result is \<open>None\<close> for \<open>null\<close> and \<open>Some m\<close> for \<open>match[1]\<close>.
\<close>

fun first_match :: "regex list \<Rightarrow> string \<Rightarrow> string option option" where
  "first_match [] url = None"
| "first_match (p # ps) url =
     (case rx_match p url of Some m \<Rightarrow> Some m | None \<Rightarrow> first_match ps url)"

definition extractYouTubeVideoId :: "string \<Rightarrow> string option option" where
  "extractYouTubeVideoId url =
     first_match [youtube_pattern1, youtube_pattern2, youtube_pattern3] url"

definition isYouTubeUrl :: "string \<Rightarrow> bool" where
  "isYouTubeUrl url = (extractYouTubeVideoId url \<noteq> None)"

definition isVimeoUrl :: "string \<Rightarrow> bool" where
  "isVimeoUrl url = rx_test vimeo_pattern url"

definition extractVimeoVideoId :: "string \<Rightarrow> string option option" where
  "extractVimeoVideoId url = rx_match vimeo_pattern url"

datatype platform = YouTube | Vimeo | Direct | Unknown

definition getVideoPlatform :: "string \<Rightarrow> platform" where
  "getVideoPlatform url =
     (if isYouTubeUrl url then YouTube
      else if isVimeoUrl url then Vimeo
      else Direct)"

section \<open>The built-in \<open>Number\<close> on strings\<close>

text \<open>
  \<open>isNaN(Number(s))\<close> holds exactly when \<open>s\<close> is not a \<open>StringNumericLiteral\<close> of the
  language standard: optional white space around nothing at all, a binary, octal or
  hexadecimal integer, or an optionally signed \<open>Infinity\<close> or decimal literal with an
  optional fraction and exponent.
\<close>

definition is_space :: "char \<Rightarrow> bool" where
  "is_space c = (c \<in> set [CHR 0x09, CHR 0x0A, CHR 0x0B, CHR 0x0C, CHR 0x0D, CHR 0x20, CHR 0xA0])"

definition trim :: "string \<Rightarrow> string" where
  "trim s = rev (dropWhile is_space (rev (dropWhile is_space s)))"

definition digits_in :: "string \<Rightarrow> string \<Rightarrow> bool" where
  "digits_in alphabet s = (s \<noteq> [] \<and> list_all (\<lambda>c. c \<in> set alphabet) s)"

definition drop_sign :: "string \<Rightarrow> string" where
  "drop_sign s = (case s of c # r \<Rightarrow> if c = CHR ''+'' \<or> c = CHR ''-'' then r else s | [] \<Rightarrow> s)"

definition exponent_part :: "string \<Rightarrow> bool" where
  "exponent_part s =
     (case s of
        [] \<Rightarrow> True
      | c # r \<Rightarrow> (c = CHR ''e'' \<or> c = CHR ''E'') \<and> digits_in ''0123456789'' (drop_sign r))"

definition unsigned_decimal :: "string \<Rightarrow> bool" where
  "unsigned_decimal s =
     (s = ''Infinity'' \<or>
      (let ip = takeWhile is_digit s; r = dropWhile is_digit s
       in case r of
            c # r' \<Rightarrow>
              if c = CHR ''.''
              then (ip \<noteq> [] \<or> takeWhile is_digit r' \<noteq> []) \<and> exponent_part (dropWhile is_digit r')
              else ip \<noteq> [] \<and> exponent_part r
          | [] \<Rightarrow> ip \<noteq> []))"

definition non_decimal_integer :: "string \<Rightarrow> bool" where
  "non_decimal_integer s =
     (case s of
        z # k # r \<Rightarrow>
          z = CHR ''0'' \<and>
          ((k = CHR ''b'' \<or> k = CHR ''B'') \<and> digits_in ''01'' r \<or>
           (k = CHR ''o'' \<or> k = CHR ''O'') \<and> digits_in ''01234567'' r \<or>
           (k = CHR ''x'' \<or> k = CHR ''X'') \<and> digits_in ''0123456789abcdefABCDEF'' r)
      | _ \<Rightarrow> False)"

definition isNaN_Number :: "string \<Rightarrow> bool" where
  "isNaN_Number s =
     (let t = trim s
      in \<not> (t = [] \<or> non_decimal_integer t \<or> unsigned_decimal (drop_sign t)))"

section \<open>Classification of a parsed URL (\<open>lib/video-utils.ts\<close>)\<close>

text \<open>
  The fields of a \<open>URL\<close> object that the source reads. The constructor \<open>new URL(url)\<close>
  belongs to the browser; it is a parameter of every function that calls it, \<open>None\<close> when
  it throws. \<open>searchParams.get(k)\<close> is the first value stored under \<open>k\<close>.
\<close>

record URL =
  hostname :: string
  pathname :: string
  searchParams :: "(string \<times> string) list"

type_synonym url_parser = "string \<Rightarrow> URL option"

record VideoPlatform =
  ptype :: platform
  videoId :: "string option"
  embedUrl :: "string option"
  thumbnailUrl :: "string option"

definition unknownPlatform :: VideoPlatform where
  "unknownPlatform = \<lparr>ptype = Unknown, videoId = None, embedUrl = None, thumbnailUrl = None\<rparr>"

definition videoExtensions :: "string list" where
  "videoExtensions = [''.mp4'', ''.webm'', ''.ogg'', ''.mov'', ''.avi'']"

text \<open>The YouTube branch: \<open>None\<close> when it falls through to the checks that follow.\<close>

definition youtube_branch :: "URL \<Rightarrow> string \<Rightarrow> VideoPlatform option" where
  "youtube_branch urlObj host =
     (if str_includes host ''youtube.com'' \<or> str_includes host ''youtu.be''
      then (let vid = (if str_includes host ''youtu.be'' then drop 1 (pathname urlObj)
                       else if pathname urlObj = ''/watch''
                       then (case map_of (searchParams urlObj) ''v'' of Some v \<Rightarrow> v | None \<Rightarrow> '''')
                       else '''')
            in if vid \<noteq> ''''
               then Some \<lparr>ptype = YouTube, videoId = Some vid,
                          embedUrl = Some (''https://www.youtube.com/embed/'' @ vid),
                          thumbnailUrl = Some (''https://img.youtube.com/vi/'' @ vid @ ''/maxresdefault.jpg'')\<rparr>
               else None)
      else None)"

definition vimeo_branch :: "URL \<Rightarrow> string \<Rightarrow> VideoPlatform option" where
  "vimeo_branch urlObj host =
     (if str_includes host ''vimeo.com''
      then (let vid = drop 1 (pathname urlObj)
            in if vid \<noteq> '''' \<and> \<not> isNaN_Number vid
               then Some \<lparr>ptype = Vimeo, videoId = Some vid,
                          embedUrl = Some (''https://player.vimeo.com/video/'' @ vid),
                          thumbnailUrl = Some (''https://vumbnail.com/'' @ vid @ ''.jpg'')\<rparr>
               else None)
      else None)"

definition parseVideoUrl :: "url_parser \<Rightarrow> string \<Rightarrow> VideoPlatform" where
  "parseVideoUrl URL_new url =
     (case URL_new url of
        None \<Rightarrow> unknownPlatform
      | Some urlObj \<Rightarrow>
          (let host = toLowerCase (hostname urlObj)
           in case youtube_branch urlObj host of
                Some r \<Rightarrow> r
              | None \<Rightarrow>
                 (case vimeo_branch urlObj host of
                    Some r \<Rightarrow> r
                  | None \<Rightarrow>
                     if list_ex (\<lambda>ext. endsWith (toLowerCase (pathname urlObj)) ext) videoExtensions
                     then \<lparr>ptype = Direct, videoId = Some (pathname urlObj),
                           embedUrl = None, thumbnailUrl = None\<rparr>
                     else unknownPlatform)))"

section \<open>JSON values and the conversions the REST client applies to them\<close>

text \<open>
  A response of the backend, once parsed, is a JSON value. Numbers are integers here
  (counts, indices, totals). \<open>undefined\<close> is the \<open>None\<close> of \<open>json option\<close>. An object is the
  list of its properties.
\<close>

datatype json =
    JNull
  | JBool bool
  | JNum int
  | JStr string
  | JArr "json list"
  | JObj "(string \<times> json) list"

text \<open>
  Reading a property of a value that is neither \<open>null\<close> nor \<open>undefined\<close>, for the property
  names the source reads (\<open>videos\<close>, \<open>data\<close>, \<open>total\<close>, \<open>count\<close>, \<open>length\<close>, \<open>detail\<close>,
  \<open>loc\<close>, \<open>msg\<close>): an object has its own properties, an array and a string have \<open>length\<close>.
\<close>

fun get_prop :: "json \<Rightarrow> string \<Rightarrow> json option" where
  "get_prop (JObj kvs) k = map_of kvs k"
| "get_prop (JArr xs) k = (if k = ''length'' then Some (JNum (int (length xs))) else None)"
| "get_prop (JStr s) k = (if k = ''length'' then Some (JNum (int (length s))) else None)"
| "get_prop _ k = None"

fun truthy :: "json option \<Rightarrow> bool" where
  "truthy None = False"
| "truthy (Some JNull) = False"
| "truthy (Some (JBool b)) = b"
| "truthy (Some (JNum n)) = (n \<noteq> 0)"
| "truthy (Some (JStr s)) = (s \<noteq> [])"
| "truthy (Some (JArr _)) = True"
| "truthy (Some (JObj _)) = True"

text \<open>\<open>a || b\<close>\<close>

definition js_or :: "json option \<Rightarrow> json option \<Rightarrow> json option" where
  "js_or a b = (if truthy a then a else b)"

text \<open>The decimal text of an integer, as \<open>String(n)\<close> gives it below \<open>10^21\<close>.\<close>

fun show_nat :: "nat \<Rightarrow> string" where
  "show_nat n =
     (if n < 10 then [''0123456789'' ! n] else show_nat (n div 10) @ [''0123456789'' ! (n mod 10)])"

declare show_nat.simps [simp del]

definition show_int :: "int \<Rightarrow> string" where
  "show_int i = (if i < 0 then CHR ''-'' # show_nat (nat (- i)) else show_nat (nat i))"

text \<open>\<open>parts.join(sep)\<close> on strings.\<close>

fun join :: "string \<Rightarrow> string list \<Rightarrow> string" where
  "join sep [] = []"
| "join sep [x] = x"
| "join sep (x # y # ys) = x @ sep @ join sep (y # ys)"

text \<open>
  \<open>String(v)\<close>, which a template literal and \<open>Array.prototype.join\<close> apply: inside
  \<open>join\<close>, \<open>null\<close> and \<open>undefined\<close> elements give the empty text.
\<close>

fun js_toString :: "json \<Rightarrow> string" where
  "js_toString JNull = ''null''"
| "js_toString (JBool b) = (if b then ''true'' else ''false'')"
| "js_toString (JNum n) = show_int n"
| "js_toString (JStr s) = s"
| "js_toString (JArr xs) =
     join '','' (map (\<lambda>x. if x = JNull then [] else js_toString x) xs)"
| "js_toString (JObj kvs) = ''[object Object]''"

definition array_join :: "json list \<Rightarrow> string \<Rightarrow> string" where
  "array_join xs sep = join sep (map (\<lambda>x. if x = JNull then [] else js_toString x) xs)"

definition template :: "json option \<Rightarrow> string" where
  "template v = (case v of None \<Rightarrow> ''undefined'' | Some x \<Rightarrow> js_toString x)"

subsection \<open>Numbers that may be infinite or not a number\<close>

datatype jsnum = Fin real | PosInf | NegInf | NaN

definition digit_value :: "char \<Rightarrow> nat" where
  "digit_value c =
     (case map_of (zip ''0123456789abcdef'' [0 ..< 16]) (lower_char c) of
        Some d \<Rightarrow> d
      | None \<Rightarrow> 0)"

definition nat_of_digits :: "nat \<Rightarrow> string \<Rightarrow> nat" where
  "nat_of_digits base ds = foldl (\<lambda>a c. a * base + digit_value c) 0 ds"

definition radix_of :: "char \<Rightarrow> nat" where
  "radix_of k = (if k = CHR ''b'' \<or> k = CHR ''B'' then 2
                 else if k = CHR ''o'' \<or> k = CHR ''O'' then 8 else 16)"

text \<open>The value of an unsigned decimal literal: integer part, fraction, exponent.\<close>

definition decimal_value :: "string \<Rightarrow> real" where
  "decimal_value t =
     (let ip = takeWhile is_digit t;
          r = dropWhile is_digit t;
          fp = (case r of c # r' \<Rightarrow> if c = CHR ''.'' then takeWhile is_digit r' else []
                | [] \<Rightarrow> []);
          r2 = (case r of c # r' \<Rightarrow> if c = CHR ''.'' then dropWhile is_digit r' else r
                | [] \<Rightarrow> []);
          mant = real (nat_of_digits 10 (ip @ fp)) / 10 ^ length fp
      in case r2 of
           [] \<Rightarrow> mant
         | _ # ex \<Rightarrow>
             (case ex of
                s # ds \<Rightarrow>
                  if s = CHR ''-'' then mant / 10 ^ nat_of_digits 10 ds
                  else mant * 10 ^ nat_of_digits 10 (drop_sign ex)
              | [] \<Rightarrow> mant))"

text \<open>\<open>Number(s)\<close> on a string, with exact arithmetic in place of rounding.\<close>

definition StringToNumber :: "string \<Rightarrow> jsnum" where
  "StringToNumber s =
     (let t = trim s
      in if isNaN_Number s then NaN
         else if t = [] then Fin 0
         else if non_decimal_integer t then Fin (real (nat_of_digits (radix_of (t ! 1)) (drop 2 t)))
         else if drop_sign t = ''Infinity'' then (if hd t = CHR ''-'' then NegInf else PosInf)
         else if hd t = CHR ''-'' then Fin (- decimal_value (drop_sign t))
         else Fin (decimal_value (drop_sign t)))"

text \<open>\<open>ToNumber\<close>, which the division \<open>total / limit\<close> applies to \<open>total\<close>.\<close>

fun ToNumber :: "json option \<Rightarrow> jsnum" where
  "ToNumber None = NaN"
| "ToNumber (Some JNull) = Fin 0"
| "ToNumber (Some (JBool b)) = Fin (if b then 1 else 0)"
| "ToNumber (Some (JNum n)) = Fin (real_of_int n)"
| "ToNumber (Some (JStr s)) = StringToNumber s"
| "ToNumber (Some (JArr xs)) = StringToNumber (js_toString (JArr xs))"
| "ToNumber (Some (JObj kvs)) = StringToNumber (js_toString (JObj kvs))"

text \<open>Division of a number by a finite one, \<open>Math.ceil\<close>, and \<open>page < totalPages\<close>.\<close>

fun js_divide :: "jsnum \<Rightarrow> real \<Rightarrow> jsnum" where
  "js_divide NaN d = NaN"
| "js_divide PosInf d = (if d < 0 then NegInf else PosInf)"
| "js_divide NegInf d = (if d < 0 then PosInf else NegInf)"
| "js_divide (Fin a) d =
     (if d = 0 then (if 0 < a then PosInf else if a < 0 then NegInf else NaN)
      else Fin (a / d))"

fun js_ceil :: "jsnum \<Rightarrow> jsnum" where
  "js_ceil (Fin a) = Fin (real_of_int \<lceil>a\<rceil>)"
| "js_ceil x = x"

fun js_less :: "real \<Rightarrow> jsnum \<Rightarrow> bool" where
  "js_less p (Fin a) = (p < a)"
| "js_less p PosInf = True"
| "js_less p NegInf = False"
| "js_less p NaN = False"

section \<open>The REST client (\<open>lib/api-client.ts\<close>, \<open>lib/error-handler.ts\<close>)\<close>

record AppError =
  name :: string
  message :: string
  code :: string
  statusCode :: nat
  isOperational :: bool

text \<open>The constructors of \<open>AppError\<close> (status 500 by default) and of \<open>NetworkError\<close>.\<close>

definition new_AppError :: "string \<Rightarrow> string \<Rightarrow> nat \<Rightarrow> AppError" where
  "new_AppError m c st =
     \<lparr>name = ''AppError'', message = m, code = c, statusCode = st, isOperational = True\<rparr>"

definition new_NetworkError :: "string \<Rightarrow> AppError" where
  "new_NetworkError m = (new_AppError m ''NETWORK_ERROR'' 0)\<lparr>name := ''NetworkError''\<rparr>"

text \<open>
  What a \<open>catch\<close> can receive: an \<open>AppError\<close>, a \<open>TypeError\<close>, another \<open>Error\<close>, each with its
  message, or a value that is no \<open>Error\<close>.
\<close>

datatype thrown = ThrownApp AppError | TypeError string | OtherError string | NotAnError

definition handleNetworkError :: "thrown \<Rightarrow> AppError" where
  "handleNetworkError e =
     (case e of
        ThrownApp a \<Rightarrow> a
      | TypeError m \<Rightarrow>
          if str_includes m ''fetch''
          then new_NetworkError ''Network error. Please check your connection.''
          else new_AppError m ''UNKNOWN_ERROR'' 500
      | OtherError m \<Rightarrow> new_AppError m ''UNKNOWN_ERROR'' 500
      | NotAnError \<Rightarrow> new_AppError ''An unexpected error occurred'' ''UNKNOWN_ERROR'' 500)"

text \<open>
  The message of a validation error: \<open>validationError.detail.map(detail =>
  `${detail.loc.join('.')}: ${detail.msg}`).join(', ')\<close>. Reading a property of \<open>null\<close> or
  \<open>undefined\<close>, and calling \<open>map\<close> or \<open>join\<close> on a value that has none, throws a
  \<open>TypeError\<close>; its message is the one the V8 engine gives.
\<close>

definition detail_line :: "json \<Rightarrow> thrown + string" where
  "detail_line d =
     (if d = JNull then Inl (TypeError ''Cannot read properties of null (reading 'loc')'')
      else case get_prop d ''loc'' of
             None \<Rightarrow> Inl (TypeError ''Cannot read properties of undefined (reading 'join')'')
           | Some JNull \<Rightarrow> Inl (TypeError ''Cannot read properties of null (reading 'join')'')
           | Some (JArr ls) \<Rightarrow> Inr (array_join ls ''.'' @ '': '' @ template (get_prop d ''msg''))
           | Some _ \<Rightarrow> Inl (TypeError ''detail.loc.join is not a function''))"

fun detail_lines :: "json list \<Rightarrow> thrown + string list" where
  "detail_lines [] = Inr []"
| "detail_lines (d # ds) =
     (case detail_line d of
        Inl e \<Rightarrow> Inl e
      | Inr l \<Rightarrow> (case detail_lines ds of Inl e \<Rightarrow> Inl e | Inr ls \<Rightarrow> Inr (l # ls)))"

definition validation_message :: "json \<Rightarrow> thrown + string" where
  "validation_message v =
     (if v = JNull then Inl (TypeError ''Cannot read properties of null (reading 'detail')'')
      else case get_prop v ''detail'' of
             None \<Rightarrow> Inl (TypeError ''Cannot read properties of undefined (reading 'map')'')
           | Some JNull \<Rightarrow> Inl (TypeError ''Cannot read properties of null (reading 'map')'')
           | Some (JArr ds) \<Rightarrow>
               (case detail_lines ds of Inl e \<Rightarrow> Inl e | Inr ls \<Rightarrow> Inr (join '', '' ls))
           | Some _ \<Rightarrow> Inl (TypeError ''validationError.detail.map is not a function''))"

text \<open>
  The answer of \<open>fetch\<close>: it throws, or it gives a response with its status, status text
  and body. \<open>response.ok\<close> is a status from 200 to 299. \<open>JSON.parse\<close> belongs to the
  runtime and is a parameter: \<open>Inr v\<close> when it returns the value \<open>v\<close>, \<open>Inl m\<close> when it throws
  a \<open>SyntaxError\<close> with the message \<open>m\<close>. \<open>response.json()\<close> is \<open>JSON.parse\<close> of the
  body.
\<close>

record Response =
  status :: nat
  statusText :: string
  body :: string

datatype fetched = FetchThrows thrown | Fetched Response

definition ok :: "Response \<Rightarrow> bool" where
  "ok r = (200 \<le> status r \<and> status r \<le> 299)"

type_synonym json_parser = "string \<Rightarrow> string + json"

text \<open>
  A parser given by a table, for the examples: the texts listed parse to the value beside
  them, every other text makes it throw with the message \<open>m\<close>.
\<close>

definition table_parser :: "string \<Rightarrow> (string \<times> json) list \<Rightarrow> json_parser" where
  "table_parser m t s = (case map_of t s of Some v \<Rightarrow> Inr v | None \<Rightarrow> Inl m)"

text \<open>
  \<open>request\<close>: \<open>Inl\<close> is the error thrown (after the outer \<open>catch\<close> has passed it through
  \<open>handleNetworkError\<close>), \<open>Inr\<close> the data returned: the parsed body, or the body text when
  it is not JSON.
\<close>

definition request :: "json_parser \<Rightarrow> fetched \<Rightarrow> AppError + json" where
  "request JSON_parse f =
     (case f of
        FetchThrows e \<Rightarrow> Inl (handleNetworkError e)
      | Fetched response \<Rightarrow>
          if \<not> ok response
          then (if status response = 422
                then (case JSON_parse (body response) of
                        Inl m \<Rightarrow> Inl (handleNetworkError (OtherError m))
                      | Inr validationError \<Rightarrow>
                          (case validation_message validationError of
                             Inl e \<Rightarrow> Inl (handleNetworkError e)
                           | Inr errorMessage \<Rightarrow>
                               Inl (handleNetworkError
                                      (ThrownApp (new_AppError errorMessage ''VALIDATION_ERROR'' 422)))))
                else Inl (handleNetworkError
                            (ThrownApp (new_AppError
                               (''HTTP '' @ show_nat (status response) @ '': '' @ statusText response)
                               ''API_ERROR'' (status response)))))
          else (case JSON_parse (body response) of
                  Inr data \<Rightarrow> Inr data
                | Inl m \<Rightarrow> Inr (JStr (body response))))"

text \<open>The code and the status of the error thrown, \<open>None\<close> on a normal return.\<close>

definition error_kind :: "AppError + json \<Rightarrow> (string \<times> nat) option" where
  "error_kind r = (case r of Inl e \<Rightarrow> Some (code e, statusCode e) | Inr _ \<Rightarrow> None)"

subsection \<open>\<open>getVideosPaginated\<close>\<close>

record PaginationParams =
  page :: "real option"
  limit :: "real option"

record pagination =
  p_page :: real
  p_limit :: real
  p_total :: "json option"
  totalPages :: jsnum
  hasNext :: bool
  hasPrev :: bool

record PaginatedResponse =
  data :: "json option"
  pagination :: pagination

text \<open>
  \<open>videos = v.videos || v.data || v\<close> and \<open>total = v.total || v.count || videos.length\<close>, on
  a value \<open>v\<close> that is not \<open>null\<close>.
\<close>

definition pick_videos :: "json \<Rightarrow> json option" where
  "pick_videos v = js_or (js_or (get_prop v ''videos'') (get_prop v ''data'')) (Some v)"

definition videos_length :: "json option \<Rightarrow> json option" where
  "videos_length videos = (case videos of Some w \<Rightarrow> get_prop w ''length'' | None \<Rightarrow> None)"

definition pick_total :: "json \<Rightarrow> json option" where
  "pick_total v =
     js_or (js_or (get_prop v ''total'') (get_prop v ''count'')) (videos_length (pick_videos v))"

definition paginate :: "real \<Rightarrow> real \<Rightarrow> json option \<Rightarrow> json option \<Rightarrow> PaginatedResponse" where
  "paginate pg lmt videos tot =
     (let tp = js_ceil (js_divide (ToNumber tot) lmt)
      in \<lparr>data = videos,
          pagination = \<lparr>p_page = pg, p_limit = lmt, p_total = tot, totalPages = tp,
                        hasNext = js_less pg tp, hasPrev = (1 < pg)\<rparr>\<rparr>)"

definition parse_error :: AppError where
  "parse_error = new_AppError ''Invalid response format from server'' ''PARSE_ERROR'' 500"

definition getVideosPaginated ::
  "json_parser \<Rightarrow> fetched \<Rightarrow> PaginationParams \<Rightarrow> AppError + PaginatedResponse" where
  "getVideosPaginated JSON_parse f params =
     (let pg = (case page params of Some p \<Rightarrow> p | None \<Rightarrow> 1);
          lmt = (case limit params of Some l \<Rightarrow> l | None \<Rightarrow> 12)
      in case request JSON_parse f of
           Inl e \<Rightarrow> Inl e
         | Inr response \<Rightarrow>
             (case response of
                JStr s \<Rightarrow>
                  (case JSON_parse s of
                     Inl m \<Rightarrow> Inl parse_error
                   | Inr parsed \<Rightarrow>
                       if parsed = JNull then Inl parse_error
                       else Inr (paginate pg lmt (pick_videos parsed) (pick_total parsed)))
              | JArr xs \<Rightarrow> Inr (paginate pg lmt (pick_videos response) (pick_total response))
              | JObj kvs \<Rightarrow> Inr (paginate pg lmt (pick_videos response) (pick_total response))
              | _ \<Rightarrow> Inr (paginate pg lmt (Some (JArr [])) (Some (JNum 0)))))"

section \<open>Thumbnails (\<open>lib/video-utils.ts\<close>, \<open>components/VideoThumbnail.tsx\<close>)\<close>

text \<open>\<open>btoa\<close>: the base64 text of a string of bytes.\<close>

definition b64_char :: "nat \<Rightarrow> char" where
  "b64_char n = ''ABCDEFGHIJKLMNOPQRSTUVWXYZabcdefghijklmnopqrstuvwxyz0123456789+/'' ! n"

fun b64 :: "nat list \<Rightarrow> string" where
  "b64 [] = []"
| "b64 [a] = [b64_char (a div 4), b64_char ((a mod 4) * 16), CHR ''='', CHR ''='']"
| "b64 [a, b] =
     [b64_char (a div 4), b64_char ((a mod 4) * 16 + b div 16), b64_char ((b mod 16) * 4), CHR ''='']"
| "b64 (a # b # c # r) =
     [b64_char (a div 4), b64_char ((a mod 4) * 16 + b div 16),
      b64_char ((b mod 16) * 4 + c div 64), b64_char (c mod 64)] @ b64 r"

definition btoa :: "string \<Rightarrow> string" where
  "btoa s = b64 (map of_char s)"

text \<open>
  The placeholder graphics. The template literals of the source differ in their
  indentation only, which is the parameter \<open>n\<close>; \<open>label\<close> is the text shown. The
  literal of \<open>Loading thumbnail...\<close> is indented by 6, the one of \<open>No thumbnail
  available\<close> by 4.
\<close>

definition nl :: string where
  "nl = [CHR 0x0A]"

definition placeholderSvg :: "nat \<Rightarrow> string" where
  \<open>placeholderSvg n =
     nl @ replicate n CHR '' '' @ ''<svg width="400" height="250" xmlns="http://www.w3.org/2000/svg">'' @
     nl @ replicate (n + 2) CHR '' '' @ ''<rect width="400" height="250" fill="#f3f4f6"/>'' @
     nl @ replicate (n + 2) CHR '' '' @ ''<rect x="150" y="100" width="100" height="50" fill="#d1d5db" rx="4"/>'' @
     nl @ replicate (n + 2) CHR '' '' @
       ''<text x="200" y="130" font-family="Arial" font-size="12" fill="#6b7280" text-anchor="middle">'' @
     nl @ replicate (n + 4) CHR '' '' @ ''Video'' @
     nl @ replicate (n + 2) CHR '' '' @ ''</text>'' @
     nl @ replicate n CHR '' '' @ ''</svg>'' @
     nl @ replicate (n - 2) CHR '' ''\<close>

definition messageSvg :: "nat \<Rightarrow> string \<Rightarrow> string" where
  \<open>messageSvg n label =
     nl @ replicate n CHR '' '' @ ''<svg width="400" height="250" xmlns="http://www.w3.org/2000/svg">'' @
     nl @ replicate (n + 2) CHR '' '' @ ''<rect width="400" height="250" fill="#f3f4f6"/>'' @
     nl @ replicate (n + 2) CHR '' '' @
       ''<text x="200" y="125" font-family="Arial" font-size="16" fill="#6b7280" text-anchor="middle">'' @
     nl @ replicate (n + 4) CHR '' '' @ label @
     nl @ replicate (n + 2) CHR '' '' @ ''</text>'' @
     nl @ replicate n CHR '' '' @ ''</svg>'' @
     nl @ replicate (n - 2) CHR '' ''\<close>

definition data_uri :: "string \<Rightarrow> string" where
  "data_uri svg = ''data:image/svg+xml;base64,'' @ btoa svg"

text \<open>
  What the video element reports, in order: the metadata are loaded, a seek has finished
  (with what the canvas did then: no 2d context, an exception while drawing or encoding,
  or the text that follows \<open>data:\<close> in the URL \<open>toDataURL\<close> returned), or an error. A
  promise settles once; later calls of \<open>resolve\<close> and \<open>reject\<close> change nothing.
\<close>

datatype canvas = NoContext | CanvasThrows string | Encoded string

datatype video_event = LoadedMetadata | Seeked canvas | VideoError

datatype settled = Pending | Resolved string | Rejected string

fun capture :: "video_event list \<Rightarrow> settled" where
  "capture [] = Pending"
| "capture (LoadedMetadata # es) = capture es"
| "capture (Seeked NoContext # es) = Rejected ''Could not get canvas context''"
| "capture (Seeked (CanvasThrows m) # es) = Rejected m"
| "capture (Seeked (Encoded u) # es) = Resolved (''data:'' @ u)"
| "capture (VideoError # es) = Resolved (data_uri (placeholderSvg 8))"

text \<open>
  \<open>generateVideoThumbnail\<close>. \<open>here\<close> is \<open>window.location.hostname\<close>, \<open>events\<close> what the
  video element created for the capture reports.
\<close>

definition isExternalDomain :: "string \<Rightarrow> URL \<Rightarrow> bool" where
  "isExternalDomain here urlObj =
     (hostname urlObj \<noteq> here \<and> \<not> str_includes (hostname urlObj) ''localhost''
      \<and> \<not> str_includes (hostname urlObj) ''127.0.0.1'')"

definition generateVideoThumbnail ::
  "url_parser \<Rightarrow> string \<Rightarrow> string \<Rightarrow> video_event list \<Rightarrow> settled" where
  "generateVideoThumbnail URL_new here videoUrl events =
     (if ptype (parseVideoUrl URL_new videoUrl) \<noteq> Direct
      then Rejected ''Not a direct video file''
      else case URL_new videoUrl of
             None \<Rightarrow> Resolved (data_uri (placeholderSvg 8))
           | Some urlObj \<Rightarrow>
               if isExternalDomain here urlObj
               then Resolved (data_uri (placeholderSvg 10))
               else capture events)"

definition getVideoThumbnail :: "url_parser \<Rightarrow> string \<Rightarrow> string" where
  "getVideoThumbnail URL_new videoUrl =
     (let platform = parseVideoUrl URL_new videoUrl
      in case thumbnailUrl platform of
           Some t \<Rightarrow>
             if t \<noteq> [] then t
             else if ptype platform = Direct then data_uri (messageSvg 6 ''Loading thumbnail...'')
             else data_uri (messageSvg 4 ''No thumbnail available'')
         | None \<Rightarrow>
             if ptype platform = Direct then data_uri (messageSvg 6 ''Loading thumbnail...'')
             else data_uri (messageSvg 4 ''No thumbnail available''))"

text \<open>
  The effect of the component \<open>VideoThumbnail\<close>: the value of its state \<open>thumbnailUrl\<close>,
  which starts as the empty string. A direct file goes through \<open>generateVideoThumbnail\<close>,
  whose rejection the \<open>catch\<close> replaces by a placeholder; every other URL gets
  \<open>getVideoThumbnail\<close> at once.
\<close>

definition VideoThumbnail ::
  "url_parser \<Rightarrow> string \<Rightarrow> string \<Rightarrow> video_event list \<Rightarrow> string" where
  "VideoThumbnail URL_new here videoUrl events =
     (if ptype (parseVideoUrl URL_new videoUrl) = Direct
      then (case generateVideoThumbnail URL_new here videoUrl events of
              Resolved generatedThumbnail \<Rightarrow> generatedThumbnail
            | Rejected e \<Rightarrow> data_uri (placeholderSvg 12)
            | Pending \<Rightarrow> [])
      else getVideoThumbnail URL_new videoUrl)"

section \<open>Results on the player hook\<close>

text \<open>
  C7. Volume and mute are coupled: the volume handler called with 0 leaves \<open>muted\<close> set, and
  called with a positive value on a muted state it clears \<open>muted\<close>; the same holds for the
  handler of the Vimeo adapter.
\<close>

theorem volume_mute_coupling:
  "muted (handleVolumeChange s (0 # rest))
   \<and> (0 < v \<and> muted s \<longrightarrow> \<not> muted (handleVolumeChange s (v # rest)))
   \<and> v_muted (fst (vimeo_handleVolumeChange pl vs (0 # rest)))
   \<and> (0 < v \<and> v_muted vs \<longrightarrow> \<not> v_muted (fst (vimeo_handleVolumeChange pl vs (v # rest))))"
  by (simp add: handleVolumeChange_def vimeo_handleVolumeChange_def Let_def)

theorem volume_mute_coupling_witness:
  "muted (handleVolumeChange initialState [0])
   \<and> (0 < (1/2 :: real) \<and> muted initialState)
   \<and> \<not> muted (handleVolumeChange initialState [1/2])
   \<and> volume (handleVolumeChange initialState [1/2]) = Some (1/2)"
  using volume_mute_coupling [of initialState "[]" "1/2"]
  by (simp add: initialState_def handleVolumeChange_def Let_def)




text \<open>
  C2 on the code. \<open>handleVideoClick\<close> clears the timer held by the ref before arming a new
  one, so it keeps the instance at one pending timer.
\<close>

lemma handleVideoClick_single_timer:
  "single_timer p \<Longrightarrow> single_timer (handleVideoClick p) \<and> pending_hides (handleVideoClick p) = 1"
  by (cases "pending (tm p)")
     (auto simp: single_timer_def handleVideoClick_def setTimeout_def clearTimeout_def
                 pending_hides_def Let_def split: option.splits)

text \<open>
  C2, evaluated. \<open>handleLoad\<close> arms a timer without clearing the one held by the ref: a click
  followed by the ready callback one second later leaves two pending timers, both fire,
  and the first one hides the controls two seconds after the ready callback showed them.
\<close>

theorem handleLoad_second_timer:
  "pending_hides (handleVideoClick mount) = 1
   \<and> pending_hides (handleLoad (advance (handleVideoClick mount) 1000) None) = 2
   \<and> pending_hides (handleLoad (handleLoad mount None) None) = 2
   \<and> showControls (state (handleLoad (advance (handleVideoClick mount) 1000) None))
   \<and> \<not> showControls (state (advance (handleLoad (advance (handleVideoClick mount) 1000) None) 2000))
   \<and> pending_hides (advance (handleLoad (advance (handleVideoClick mount) 1000) None) 2000) = 1"
  by (simp add: pending_hides_def handleLoad_def handleVideoClick_def mount_def advance_def
                setTimeout_def clearTimeout_def initialState_def Let_def)

section \<open>Results on the classification of URLs\<close>

subsection \<open>The matcher\<close>

lemma rx_match_hit: "ms r s None = (s', c) # rest \<Longrightarrow> rx_match r s = Some c"
  by (cases s) simp_all

lemma ms_Plus_all:
  assumes "s \<noteq> []" and "\<forall>x\<in>set s. P x"
  shows "\<exists>rest. ms (Plus P) s c = ([], c) # rest"
proof -
  have tw: "takeWhile P s = s"
    using assms(2) by (simp add: takeWhile_eq_all_conv)
  have "1 \<le> length s"
    using assms(1) by (cases s) simp_all
  then have "[1 ..< Suc (length s)] = [1 ..< length s] @ [length s]"
    by simp
  then show ?thesis
    by (simp add: tw)
qed

lemma ms_Group_Plus_all:
  assumes "s \<noteq> []" and "\<forall>x\<in>set s. P x"
  shows "\<exists>rest. ms (Group (Plus P)) s c = ([], Some s) # rest"
proof -
  obtain rest where "ms (Plus P) s c = ([], c) # rest"
    using ms_Plus_all [OF assms] by blast
  then show ?thesis by simp
qed

text \<open>The three heads of the first YouTube pattern, before any tail \<open>t\<close>.\<close>

lemma heads_watch:
  assumes "ms t X None = y # r"
  shows "\<exists>rest. ms (Seq youtube_heads t) (''youtube.com/watch?v='' @ X) None = y # rest"
  using assms by (simp add: youtube_heads_def)

lemma heads_short:
  assumes "ms t X None = y # r"
  shows "\<exists>rest. ms (Seq youtube_heads t) (''youtu.be/'' @ X) None = y # rest"
  using assms by (simp add: youtube_heads_def)

lemma heads_embed:
  assumes "ms t X None = y # r"
  shows "\<exists>rest. ms (Seq youtube_heads t) (''youtube.com/embed/'' @ X) None = y # rest"
  using assms by (simp add: youtube_heads_def)

lemma heads_skip_scheme:
  "rx_match (Seq youtube_heads t) (''https://'' @ s) = rx_match (Seq youtube_heads t) s"
  by (simp add: youtube_heads_def)

lemma pattern1_matches:
  assumes "X \<noteq> []" and "\<forall>x\<in>set X. id_char x"
  shows "rx_match youtube_pattern1 (''https://youtube.com/watch?v='' @ X) = Some (Some X)"
    and "rx_match youtube_pattern1 (''https://youtu.be/'' @ X) = Some (Some X)"
    and "rx_match youtube_pattern1 (''https://youtube.com/embed/'' @ X) = Some (Some X)"
proof -
  obtain rest where g: "ms (Group (Plus id_char)) X None = ([], Some X) # rest"
    using ms_Group_Plus_all [OF assms] by blast
  note p = youtube_pattern1_def
  have "rx_match youtube_pattern1 (''youtube.com/watch?v='' @ X) = Some (Some X)"
    using heads_watch [OF g] rx_match_hit unfolding p by blast
  then show "rx_match youtube_pattern1 (''https://youtube.com/watch?v='' @ X) = Some (Some X)"
    using heads_skip_scheme [of "Group (Plus id_char)" "''youtube.com/watch?v='' @ X"]
    unfolding p by simp
  have "rx_match youtube_pattern1 (''youtu.be/'' @ X) = Some (Some X)"
    using heads_short [OF g] rx_match_hit unfolding p by blast
  then show "rx_match youtube_pattern1 (''https://youtu.be/'' @ X) = Some (Some X)"
    using heads_skip_scheme [of "Group (Plus id_char)" "''youtu.be/'' @ X"]
    unfolding p by simp
  have "rx_match youtube_pattern1 (''youtube.com/embed/'' @ X) = Some (Some X)"
    using heads_embed [OF g] rx_match_hit unfolding p by blast
  then show "rx_match youtube_pattern1 (''https://youtube.com/embed/'' @ X) = Some (Some X)"
    using heads_skip_scheme [of "Group (Plus id_char)" "''youtube.com/embed/'' @ X"]
    unfolding p by simp
qed

text \<open>Every YouTube pattern starts with the letter y: a text without it matches none.\<close>

lemma no_y_no_match:
  assumes "CHR ''y'' \<notin> set s"
  shows "rx_match (Seq youtube_heads t) s = None"
    and "rx_match (Seq (Lit ''youtube.com/v/'') t) s = None"
    and "rx_match (Seq (Lit ''youtube.com/watch?'') t) s = None"
  using assms by (induction s) (auto simp: youtube_heads_def)

lemma no_y_not_youtube:
  assumes "CHR ''y'' \<notin> set s"
  shows "extractYouTubeVideoId s = None"
  using no_y_no_match [OF assms]
  by (simp add: extractYouTubeVideoId_def youtube_pattern1_def youtube_pattern2_def
                youtube_pattern3_def)

lemma vimeo_skip_scheme:
  "rx_match (Seq (Lit ''vimeo.com/'') t) (''https://'' @ s) = rx_match (Seq (Lit ''vimeo.com/'') t) s"
  by simp

lemma vimeo_head:
  assumes "ms t X None = y # r"
  shows "\<exists>rest. ms (Seq (Lit ''vimeo.com/'') t) (''vimeo.com/'' @ X) None = y # rest"
  using assms by simp

lemma vimeo_pattern_matches:
  assumes "ds \<noteq> []" and "\<forall>x\<in>set ds. is_digit x"
  shows "rx_match vimeo_pattern (''https://vimeo.com/'' @ ds) = Some (Some ds)"
proof -
  obtain rest where g: "ms (Group (Plus is_digit)) ds None = ([], Some ds) # rest"
    using ms_Group_Plus_all [OF assms] by blast
  have "rx_match vimeo_pattern (''vimeo.com/'' @ ds) = Some (Some ds)"
    using vimeo_head [OF g] rx_match_hit unfolding vimeo_pattern_def by blast
  then show ?thesis
    using vimeo_skip_scheme [of "Group (Plus is_digit)" "''vimeo.com/'' @ ds"]
    unfolding vimeo_pattern_def by simp
qed

lemma digits_not_NaN:
  assumes "ds \<noteq> []" and "\<forall>x\<in>set ds. is_digit x"
  shows "\<not> isNaN_Number ds"
proof -
  have nsp: "\<And>c. is_digit c \<Longrightarrow> \<not> is_space c \<and> c \<noteq> CHR ''+'' \<and> c \<noteq> CHR ''-''"
    by (auto simp: is_digit_def is_space_def)
  have dw: "dropWhile is_space xs = xs" if "\<forall>x\<in>set xs. \<not> is_space x" for xs
    using that by (cases xs) simp_all
  have t: "trim ds = ds"
    using assms(2) nsp by (simp add: trim_def dw)
  have s: "drop_sign ds = ds"
    using assms nsp by (cases ds) (auto simp: drop_sign_def)
  have tw: "takeWhile is_digit ds = ds" and dr: "dropWhile is_digit ds = []"
    using assms(2) by (simp_all add: takeWhile_eq_all_conv)
  have "unsigned_decimal ds"
    using assms(1) by (simp add: unsigned_decimal_def Let_def tw dr)
  then show ?thesis
    by (simp add: isNaN_Number_def t s)
qed

subsection \<open>The claims\<close>

text \<open>
  C4, as the code has it. For a non-empty identifier \<open>X\<close> without \<open>&\<close>, \<open>?\<close>, \<open>#\<close> and
  newline, the pattern-based detection (\<open>extractYouTubeVideoId\<close>, \<open>getVideoPlatform\<close>)
  gives YouTube and the id \<open>X\<close> on the watch, short and embed forms of the URL.
  \<open>parseVideoUrl\<close> classifies what the URL constructor hands it: on a host that contains
  \<open>youtu.be\<close> the id is the path after its first character, on a host that contains
  \<open>youtube.com\<close> with the path \<open>/watch\<close> the id is the value of the query parameter \<open>v\<close>,
  and a non-empty id gives YouTube; on a host that contains \<open>youtube.com\<close> with another
  path, such as \<open>/embed/X\<close>, it never answers YouTube. Whether the id is \<open>X\<close> is up to
  the URL constructor.
\<close>

theorem youtube_forms_classified:
  assumes "X \<noteq> []"
    and "\<forall>c\<in>set X. c \<noteq> CHR ''&'' \<and> c \<noteq> CHR ''?'' \<and> c \<noteq> CHR ''#'' \<and> c \<noteq> CHR 0x0A"
  shows "extractYouTubeVideoId (''https://youtube.com/watch?v='' @ X) = Some (Some X)
       \<and> extractYouTubeVideoId (''https://youtu.be/'' @ X) = Some (Some X)
       \<and> extractYouTubeVideoId (''https://youtube.com/embed/'' @ X) = Some (Some X)
       \<and> getVideoPlatform (''https://youtube.com/watch?v='' @ X) = YouTube
       \<and> getVideoPlatform (''https://youtu.be/'' @ X) = YouTube
       \<and> getVideoPlatform (''https://youtube.com/embed/'' @ X) = YouTube
       \<and> (P1 u1 = Some o1 \<and> str_includes (toLowerCase (hostname o1)) ''youtu.be''
            \<and> drop 1 (pathname o1) \<noteq> [] \<longrightarrow>
            parseVideoUrl P1 u1 =
              \<lparr>ptype = YouTube, videoId = Some (drop 1 (pathname o1)),
               embedUrl = Some (''https://www.youtube.com/embed/'' @ drop 1 (pathname o1)),
               thumbnailUrl = Some (''https://img.youtube.com/vi/'' @ drop 1 (pathname o1)
                                      @ ''/maxresdefault.jpg'')\<rparr>)
       \<and> (P2 u2 = Some o2 \<and> str_includes (toLowerCase (hostname o2)) ''youtube.com''
            \<and> \<not> str_includes (toLowerCase (hostname o2)) ''youtu.be''
            \<and> pathname o2 = ''/watch'' \<and> map_of (searchParams o2) ''v'' = Some w \<and> w \<noteq> [] \<longrightarrow>
            parseVideoUrl P2 u2 =
              \<lparr>ptype = YouTube, videoId = Some w,
               embedUrl = Some (''https://www.youtube.com/embed/'' @ w),
               thumbnailUrl = Some (''https://img.youtube.com/vi/'' @ w @ ''/maxresdefault.jpg'')\<rparr>)
       \<and> (P3 u3 = Some o3 \<and> str_includes (toLowerCase (hostname o3)) ''youtube.com''
            \<and> \<not> str_includes (toLowerCase (hostname o3)) ''youtu.be''
            \<and> pathname o3 \<noteq> ''/watch'' \<longrightarrow>
            ptype (parseVideoUrl P3 u3) \<noteq> YouTube)"
proof -
  have idc: "\<forall>c\<in>set X. id_char c"
    using assms(2) by (simp add: id_char_def)
  note m = pattern1_matches [OF assms(1) idc]
  have e: "extractYouTubeVideoId (''https://youtube.com/watch?v='' @ X) = Some (Some X)"
          "extractYouTubeVideoId (''https://youtu.be/'' @ X) = Some (Some X)"
          "extractYouTubeVideoId (''https://youtube.com/embed/'' @ X) = Some (Some X)"
    using m by (simp_all add: extractYouTubeVideoId_def)
  have g: "getVideoPlatform (''https://youtube.com/watch?v='' @ X) = YouTube"
          "getVideoPlatform (''https://youtu.be/'' @ X) = YouTube"
          "getVideoPlatform (''https://youtube.com/embed/'' @ X) = YouTube"
    using e by (simp_all add: getVideoPlatform_def isYouTubeUrl_def)
  have s: "parseVideoUrl P1 u1 =
              \<lparr>ptype = YouTube, videoId = Some (drop 1 (pathname o1)),
               embedUrl = Some (''https://www.youtube.com/embed/'' @ drop 1 (pathname o1)),
               thumbnailUrl = Some (''https://img.youtube.com/vi/'' @ drop 1 (pathname o1)
                                      @ ''/maxresdefault.jpg'')\<rparr>"
    if "P1 u1 = Some o1" "str_includes (toLowerCase (hostname o1)) ''youtu.be''"
       "drop 1 (pathname o1) \<noteq> []"
    using that by (simp add: parseVideoUrl_def youtube_branch_def Let_def)
  have w: "parseVideoUrl P2 u2 =
              \<lparr>ptype = YouTube, videoId = Some w,
               embedUrl = Some (''https://www.youtube.com/embed/'' @ w),
               thumbnailUrl = Some (''https://img.youtube.com/vi/'' @ w @ ''/maxresdefault.jpg'')\<rparr>"
    if "P2 u2 = Some o2" "str_includes (toLowerCase (hostname o2)) ''youtube.com''"
       "\<not> str_includes (toLowerCase (hostname o2)) ''youtu.be''"
       "pathname o2 = ''/watch''" "map_of (searchParams o2) ''v'' = Some w" "w \<noteq> []"
    using that by (simp add: parseVideoUrl_def youtube_branch_def Let_def)
  have b: "ptype (parseVideoUrl P3 u3) \<noteq> YouTube"
    if "P3 u3 = Some o3" "str_includes (toLowerCase (hostname o3)) ''youtube.com''"
       "\<not> str_includes (toLowerCase (hostname o3)) ''youtu.be''" "pathname o3 \<noteq> ''/watch''"
    using that
    by (simp add: parseVideoUrl_def youtube_branch_def vimeo_branch_def Let_def unknownPlatform_def)
  show ?thesis
    using e g s w b by blast
qed

theorem youtube_forms_classified_witness:
  "extractYouTubeVideoId ''https://youtube.com/watch?v=dQw4w9WgXcQ'' = Some (Some ''dQw4w9WgXcQ'')
   \<and> extractYouTubeVideoId ''https://youtu.be/dQw4w9WgXcQ'' = Some (Some ''dQw4w9WgXcQ'')
   \<and> extractYouTubeVideoId ''https://youtube.com/embed/dQw4w9WgXcQ'' = Some (Some ''dQw4w9WgXcQ'')
   \<and> getVideoPlatform ''https://youtube.com/embed/dQw4w9WgXcQ'' = YouTube
   \<and> parseVideoUrl
        (map_of [(''https://youtu.be/dQw4w9WgXcQ'',
                  \<lparr>hostname = ''youtu.be'', pathname = ''/dQw4w9WgXcQ'', searchParams = []\<rparr>)])
        ''https://youtu.be/dQw4w9WgXcQ'' =
      \<lparr>ptype = YouTube, videoId = Some ''dQw4w9WgXcQ'',
       embedUrl = Some ''https://www.youtube.com/embed/dQw4w9WgXcQ'',
       thumbnailUrl = Some ''https://img.youtube.com/vi/dQw4w9WgXcQ/maxresdefault.jpg''\<rparr>
   \<and> parseVideoUrl
        (map_of [(''https://youtube.com/watch?v=dQw4w9WgXcQ'',
                  \<lparr>hostname = ''youtube.com'', pathname = ''/watch'',
                   searchParams = [(''v'', ''dQw4w9WgXcQ'')]\<rparr>)])
        ''https://youtube.com/watch?v=dQw4w9WgXcQ'' =
      \<lparr>ptype = YouTube, videoId = Some ''dQw4w9WgXcQ'',
       embedUrl = Some ''https://www.youtube.com/embed/dQw4w9WgXcQ'',
       thumbnailUrl = Some ''https://img.youtube.com/vi/dQw4w9WgXcQ/maxresdefault.jpg''\<rparr>
   \<and> ptype (parseVideoUrl
        (map_of [(''https://youtube.com/embed/dQw4w9WgXcQ'',
                  \<lparr>hostname = ''youtube.com'', pathname = ''/embed/dQw4w9WgXcQ'', searchParams = []\<rparr>)])
        ''https://youtube.com/embed/dQw4w9WgXcQ'') \<noteq> YouTube"
proof -
  let ?o1 = "\<lparr>hostname = ''youtu.be'', pathname = ''/dQw4w9WgXcQ'', searchParams = []\<rparr>"
  let ?o2 = "\<lparr>hostname = ''youtube.com'', pathname = ''/watch'',
              searchParams = [(''v'', ''dQw4w9WgXcQ'')]\<rparr>"
  let ?o3 = "\<lparr>hostname = ''youtube.com'', pathname = ''/embed/dQw4w9WgXcQ'', searchParams = []\<rparr>"
  have h: "str_includes (toLowerCase ''youtu.be'') ''youtu.be''"
    "str_includes (toLowerCase ''youtube.com'') ''youtube.com''"
    "\<not> str_includes (toLowerCase ''youtube.com'') ''youtu.be''"
    by (simp_all add: toLowerCase_def lower_char_def str_includes_def sublist_code)
  show ?thesis
    using h youtube_forms_classified
          [where X = "''dQw4w9WgXcQ''"
             and ?P1.0 = "map_of [(''https://youtu.be/dQw4w9WgXcQ'', ?o1)]"
             and ?u1.0 = "''https://youtu.be/dQw4w9WgXcQ''" and ?o1.0 = ?o1
             and ?P2.0 = "map_of [(''https://youtube.com/watch?v=dQw4w9WgXcQ'', ?o2)]"
             and ?u2.0 = "''https://youtube.com/watch?v=dQw4w9WgXcQ''" and ?o2.0 = ?o2
             and w = "''dQw4w9WgXcQ''"
             and ?P3.0 = "map_of [(''https://youtube.com/embed/dQw4w9WgXcQ'', ?o3)]"
             and ?u3.0 = "''https://youtube.com/embed/dQw4w9WgXcQ''" and ?o3.0 = ?o3]
    by simp
qed

text \<open>
  C4, as stated, fails for \<open>parseVideoUrl\<close>. The embed form of a YouTube URL, parsed to the
  host \<open>youtube.com\<close> and the path \<open>/embed/dQw4w9WgXcQ\<close>, is classified as unknown, with
  no video id. The watch form with the identifier \<open>a+b\<close>, whose query parameter \<open>v\<close> the
  URL constructor decodes to \<open>a b\<close>, is classified as YouTube with the id \<open>a b\<close>.
\<close>

theorem parseVideoUrl_embed_counterexample:
  "parseVideoUrl
     (map_of [(''https://youtube.com/embed/dQw4w9WgXcQ'',
               \<lparr>hostname = ''youtube.com'', pathname = ''/embed/dQw4w9WgXcQ'', searchParams = []\<rparr>)])
     ''https://youtube.com/embed/dQw4w9WgXcQ''
   = \<lparr>ptype = Unknown, videoId = None, embedUrl = None, thumbnailUrl = None\<rparr>
   \<and> videoId (parseVideoUrl
     (map_of [(''https://youtube.com/watch?v=a+b'',
               \<lparr>hostname = ''youtube.com'', pathname = ''/watch'', searchParams = [(''v'', ''a b'')]\<rparr>)])
     ''https://youtube.com/watch?v=a+b'') = Some ''a b''"
  by (simp add: parseVideoUrl_def youtube_branch_def vimeo_branch_def toLowerCase_def
                lower_char_def str_includes_def sublist_code Let_def unknownPlatform_def
                videoExtensions_def endsWith_def suffix_to_prefix)

text \<open>
  C5, as the code has it. A URL \<open>https://vimeo.com/<digits>\<close> with one digit or more,
  parsed to the host \<open>vimeo.com\<close> and the path \<open>/<digits>\<close>, is classified by
  \<open>parseVideoUrl\<close> as Vimeo with the digits as its id, and the pattern-based detection
  agrees. A path segment that \<open>Number\<close> does not read as a number, such as \<open>abc\<close>, is
  classified by \<open>parseVideoUrl\<close> as unknown when the path carries no video extension and
  as a direct file when it carries one. \<open>getVideoPlatform\<close> answers Direct on
  \<open>https://vimeo.com/abc\<close>.
\<close>

theorem vimeo_classified:
  assumes "ds \<noteq> []" and "\<forall>c\<in>set ds. is_digit c"
  shows "(P1 u1 = Some \<lparr>hostname = ''vimeo.com'', pathname = ''/'' @ ds, searchParams = q1\<rparr> \<longrightarrow>
          parseVideoUrl P1 u1 =
            \<lparr>ptype = Vimeo, videoId = Some ds,
             embedUrl = Some (''https://player.vimeo.com/video/'' @ ds),
             thumbnailUrl = Some (''https://vumbnail.com/'' @ ds @ ''.jpg'')\<rparr>)
       \<and> getVideoPlatform (''https://vimeo.com/'' @ ds) = Vimeo
       \<and> extractVimeoVideoId (''https://vimeo.com/'' @ ds) = Some (Some ds)
       \<and> (isNaN_Number seg
          \<and> \<not> list_ex (\<lambda>ext. endsWith (toLowerCase (''/'' @ seg)) ext) videoExtensions
          \<and> P2 u2 = Some \<lparr>hostname = ''vimeo.com'', pathname = ''/'' @ seg, searchParams = q2\<rparr> \<longrightarrow>
          parseVideoUrl P2 u2 =
            \<lparr>ptype = Unknown, videoId = None, embedUrl = None, thumbnailUrl = None\<rparr>)
       \<and> (isNaN_Number seg'
          \<and> list_ex (\<lambda>ext. endsWith (toLowerCase (''/'' @ seg')) ext) videoExtensions
          \<and> P3 u3 = Some \<lparr>hostname = ''vimeo.com'', pathname = ''/'' @ seg', searchParams = q3\<rparr> \<longrightarrow>
          parseVideoUrl P3 u3 =
            \<lparr>ptype = Direct, videoId = Some (''/'' @ seg'), embedUrl = None, thumbnailUrl = None\<rparr>)
       \<and> isNaN_Number ''abc''
       \<and> \<not> list_ex (\<lambda>ext. endsWith (toLowerCase ''/abc'') ext) videoExtensions
       \<and> getVideoPlatform ''https://vimeo.com/abc'' = Direct"
proof -
  have host: "toLowerCase ''vimeo.com'' = ''vimeo.com''"
    by (simp add: toLowerCase_def lower_char_def)
  have inc: "str_includes ''vimeo.com'' ''vimeo.com''" "\<not> str_includes ''vimeo.com'' ''youtu.be''"
            "\<not> str_includes ''vimeo.com'' ''youtube.com''"
    by (simp_all add: str_includes_def sublist_code)
  have num: "\<not> isNaN_Number ds"
    using digits_not_NaN [OF assms] .
  have p: "parseVideoUrl P1 u1 =
            \<lparr>ptype = Vimeo, videoId = Some ds,
             embedUrl = Some (''https://player.vimeo.com/video/'' @ ds),
             thumbnailUrl = Some (''https://vumbnail.com/'' @ ds @ ''.jpg'')\<rparr>"
    if "P1 u1 = Some \<lparr>hostname = ''vimeo.com'', pathname = ''/'' @ ds, searchParams = q1\<rparr>"
    using that assms(1) num
    by (simp add: parseVideoUrl_def youtube_branch_def vimeo_branch_def host inc Let_def)
  have "\<not> is_digit (CHR ''y'')"
    by (simp add: is_digit_def)
  then have "CHR ''y'' \<notin> set ds"
    using assms(2) by blast
  then have "CHR ''y'' \<notin> set (''https://vimeo.com/'' @ ds)"
    by simp
  then have ny: "\<not> isYouTubeUrl (''https://vimeo.com/'' @ ds)"
    using no_y_not_youtube by (simp add: isYouTubeUrl_def)
  have v: "extractVimeoVideoId (''https://vimeo.com/'' @ ds) = Some (Some ds)"
    using vimeo_pattern_matches [OF assms] by (simp add: extractVimeoVideoId_def)
  then have "isVimeoUrl (''https://vimeo.com/'' @ ds)"
    by (simp add: isVimeoUrl_def rx_test_def extractVimeoVideoId_def)
  then have g: "getVideoPlatform (''https://vimeo.com/'' @ ds) = Vimeo"
    using ny by (simp add: getVideoPlatform_def)
  have unk: "parseVideoUrl P2 u2 =
            \<lparr>ptype = Unknown, videoId = None, embedUrl = None, thumbnailUrl = None\<rparr>"
    if "isNaN_Number seg"
      and "\<not> list_ex (\<lambda>ext. endsWith (toLowerCase (''/'' @ seg)) ext) videoExtensions"
      and "P2 u2 = Some \<lparr>hostname = ''vimeo.com'', pathname = ''/'' @ seg, searchParams = q2\<rparr>"
    using that
    by (simp add: parseVideoUrl_def youtube_branch_def vimeo_branch_def host inc Let_def
                  unknownPlatform_def)
  have dir: "parseVideoUrl P3 u3 =
            \<lparr>ptype = Direct, videoId = Some (''/'' @ seg'), embedUrl = None, thumbnailUrl = None\<rparr>"
    if "isNaN_Number seg'"
      and "list_ex (\<lambda>ext. endsWith (toLowerCase (''/'' @ seg')) ext) videoExtensions"
      and "P3 u3 = Some \<lparr>hostname = ''vimeo.com'', pathname = ''/'' @ seg', searchParams = q3\<rparr>"
    using that
    by (simp add: parseVideoUrl_def youtube_branch_def vimeo_branch_def host inc Let_def)
  have abc: "isNaN_Number ''abc''"
    "\<not> list_ex (\<lambda>ext. endsWith (toLowerCase ''/abc'') ext) videoExtensions"
    by (simp_all add: isNaN_Number_def trim_def is_space_def non_decimal_integer_def
          unsigned_decimal_def drop_sign_def is_digit_def Let_def videoExtensions_def
          endsWith_def suffix_to_prefix toLowerCase_def lower_char_def)
  have "CHR ''y'' \<notin> set ''https://vimeo.com/abc''"
    by simp
  then have "\<not> isYouTubeUrl ''https://vimeo.com/abc''"
    using no_y_not_youtube by (simp add: isYouTubeUrl_def)
  moreover have "\<not> isVimeoUrl ''https://vimeo.com/abc''"
    by (simp add: isVimeoUrl_def rx_test_def vimeo_pattern_def is_digit_def)
  ultimately have gd: "getVideoPlatform ''https://vimeo.com/abc'' = Direct"
    by (simp add: getVideoPlatform_def)
  show ?thesis
    using p g v unk dir abc gd by blast
qed

theorem vimeo_classified_witness:
  "parseVideoUrl
     (map_of [(''https://vimeo.com/76979871'',
               \<lparr>hostname = ''vimeo.com'', pathname = ''/76979871'', searchParams = []\<rparr>)])
     ''https://vimeo.com/76979871''
   = \<lparr>ptype = Vimeo, videoId = Some ''76979871'',
      embedUrl = Some ''https://player.vimeo.com/video/76979871'',
      thumbnailUrl = Some ''https://vumbnail.com/76979871.jpg''\<rparr>
   \<and> getVideoPlatform ''https://vimeo.com/76979871'' = Vimeo
   \<and> extractVimeoVideoId ''https://vimeo.com/76979871'' = Some (Some ''76979871'')
   \<and> parseVideoUrl
        (map_of [(''https://vimeo.com/abc'',
                  \<lparr>hostname = ''vimeo.com'', pathname = ''/abc'', searchParams = []\<rparr>)])
        ''https://vimeo.com/abc''
      = \<lparr>ptype = Unknown, videoId = None, embedUrl = None, thumbnailUrl = None\<rparr>
   \<and> parseVideoUrl
        (map_of [(''https://vimeo.com/abc.mp4'',
                  \<lparr>hostname = ''vimeo.com'', pathname = ''/abc.mp4'', searchParams = []\<rparr>)])
        ''https://vimeo.com/abc.mp4''
      = \<lparr>ptype = Direct, videoId = Some ''/abc.mp4'', embedUrl = None, thumbnailUrl = None\<rparr>"
proof -
  have m: "isNaN_Number ''abc.mp4''"
    "list_ex (\<lambda>ext. endsWith (toLowerCase (''/'' @ ''abc.mp4'')) ext) videoExtensions"
    by (simp_all add: isNaN_Number_def trim_def is_space_def non_decimal_integer_def
          unsigned_decimal_def drop_sign_def is_digit_def Let_def videoExtensions_def
          endsWith_def suffix_to_prefix toLowerCase_def lower_char_def exponent_part_def)
  show ?thesis
    using m vimeo_classified
          [where ds = "''76979871''"
             and ?P1.0 = "map_of [(''https://vimeo.com/76979871'',
                 \<lparr>hostname = ''vimeo.com'', pathname = ''/76979871'', searchParams = []\<rparr>)]"
             and ?u1.0 = "''https://vimeo.com/76979871''" and ?q1.0 = "[]"
             and seg = "''abc''"
             and ?P2.0 = "map_of [(''https://vimeo.com/abc'',
                  \<lparr>hostname = ''vimeo.com'', pathname = ''/abc'', searchParams = []\<rparr>)]"
             and ?u2.0 = "''https://vimeo.com/abc''" and ?q2.0 = "[]"
             and seg' = "''abc.mp4''"
             and ?P3.0 = "map_of [(''https://vimeo.com/abc.mp4'',
                  \<lparr>hostname = ''vimeo.com'', pathname = ''/abc.mp4'', searchParams = []\<rparr>)]"
             and ?u3.0 = "''https://vimeo.com/abc.mp4''" and ?q3.0 = "[]"]
    by (simp add: is_digit_def)
qed

text \<open>
  C5, as stated, fails. On the claim's own example \<open>https://vimeo.com/abc\<close> the
  pattern-based detection answers Direct, not unknown. \<open>parseVideoUrl\<close> answers Direct for
  the segment \<open>abc.mp4\<close>, and Vimeo for the segment \<open>1e3\<close>, which is not a string of digits
  but which \<open>Number\<close> reads as a number.
\<close>

theorem vimeo_segment_counterexample:
  "getVideoPlatform ''https://vimeo.com/abc'' = Direct
   \<and> ptype (parseVideoUrl
        (map_of [(''https://vimeo.com/abc.mp4'',
                  \<lparr>hostname = ''vimeo.com'', pathname = ''/abc.mp4'', searchParams = []\<rparr>)])
        ''https://vimeo.com/abc.mp4'') = Direct
   \<and> parseVideoUrl
        (map_of [(''https://vimeo.com/1e3'',
                  \<lparr>hostname = ''vimeo.com'', pathname = ''/1e3'', searchParams = []\<rparr>)])
        ''https://vimeo.com/1e3''
      = \<lparr>ptype = Vimeo, videoId = Some ''1e3'',
         embedUrl = Some ''https://player.vimeo.com/video/1e3'',
         thumbnailUrl = Some ''https://vumbnail.com/1e3.jpg''\<rparr>"
proof -
  have "CHR ''y'' \<notin> set ''https://vimeo.com/abc''"
    by simp
  then have "\<not> isYouTubeUrl ''https://vimeo.com/abc''"
    using no_y_not_youtube by (simp add: isYouTubeUrl_def)
  moreover have "\<not> isVimeoUrl ''https://vimeo.com/abc''"
    by (simp add: isVimeoUrl_def rx_test_def vimeo_pattern_def is_digit_def)
  ultimately have g: "getVideoPlatform ''https://vimeo.com/abc'' = Direct"
    by (simp add: getVideoPlatform_def)
  have p: "ptype (parseVideoUrl
        (map_of [(''https://vimeo.com/abc.mp4'',
                  \<lparr>hostname = ''vimeo.com'', pathname = ''/abc.mp4'', searchParams = []\<rparr>)])
        ''https://vimeo.com/abc.mp4'') = Direct"
    "parseVideoUrl
        (map_of [(''https://vimeo.com/1e3'',
                  \<lparr>hostname = ''vimeo.com'', pathname = ''/1e3'', searchParams = []\<rparr>)])
        ''https://vimeo.com/1e3''
      = \<lparr>ptype = Vimeo, videoId = Some ''1e3'',
         embedUrl = Some ''https://player.vimeo.com/video/1e3'',
         thumbnailUrl = Some ''https://vumbnail.com/1e3.jpg''\<rparr>"
    by (simp_all add: parseVideoUrl_def youtube_branch_def vimeo_branch_def toLowerCase_def
          lower_char_def str_includes_def sublist_code Let_def videoExtensions_def endsWith_def
          suffix_to_prefix isNaN_Number_def trim_def is_space_def non_decimal_integer_def
          unsigned_decimal_def drop_sign_def is_digit_def exponent_part_def digits_in_def)
  show ?thesis
    using g p by simp
qed

text \<open>
  C6. When the URL constructor throws on the input, \<open>parseVideoUrl\<close> returns the
  classification unknown with no video id, embed URL or thumbnail URL; the error does not
  reach the caller.
\<close>

theorem malformed_url_unknown:
  "URL_new url = None \<Longrightarrow>
     parseVideoUrl URL_new url =
       \<lparr>ptype = Unknown, videoId = None, embedUrl = None, thumbnailUrl = None\<rparr>"
  by (simp add: parseVideoUrl_def unknownPlatform_def)

theorem malformed_url_unknown_witness:
  "map_of [] ''http://[not a url'' = (None :: URL option)
   \<and> parseVideoUrl (map_of []) ''http://[not a url'' =
       \<lparr>ptype = Unknown, videoId = None, embedUrl = None, thumbnailUrl = None\<rparr>"
  using malformed_url_unknown [of "map_of []" "''http://[not a url''"]
  by simp

text \<open>
  C10. \<open>getVideoPlatform\<close> answers on every string, and the answers it gives are exactly
  YouTube, Vimeo and Direct, never Unknown: YouTube when one of the YouTube patterns
  matches, Vimeo when none of them but the Vimeo pattern matches, Direct when neither
  does. The empty string, a malformed URL and a URL without a video extension get
  Direct; a \<open>youtu.be\<close> URL gets YouTube and a \<open>vimeo.com/<digits>\<close> URL gets Vimeo.
\<close>

theorem getVideoPlatform_range:
  "range getVideoPlatform = {YouTube, Vimeo, Direct}
   \<and> getVideoPlatform url \<noteq> Unknown
   \<and> (getVideoPlatform url = YouTube \<longleftrightarrow>
        (\<exists>p\<in>set [youtube_pattern1, youtube_pattern2, youtube_pattern3]. rx_match p url \<noteq> None))
   \<and> (getVideoPlatform url = Vimeo \<longleftrightarrow>
        (\<forall>p\<in>set [youtube_pattern1, youtube_pattern2, youtube_pattern3]. rx_match p url = None)
        \<and> rx_match vimeo_pattern url \<noteq> None)
   \<and> (getVideoPlatform url = Direct \<longleftrightarrow>
        (\<forall>p\<in>set [youtube_pattern1, youtube_pattern2, youtube_pattern3]. rx_match p url = None)
        \<and> rx_match vimeo_pattern url = None)
   \<and> getVideoPlatform '''' = Direct
   \<and> getVideoPlatform ''http://[not a url'' = Direct
   \<and> getVideoPlatform ''https://example.com/lecture'' = Direct
   \<and> getVideoPlatform ''https://youtu.be/dQw4w9WgXcQ'' = YouTube
   \<and> getVideoPlatform ''https://vimeo.com/76979871'' = Vimeo"
proof -
  have yt_iff: "isYouTubeUrl s \<longleftrightarrow>
      (\<exists>p\<in>set [youtube_pattern1, youtube_pattern2, youtube_pattern3]. rx_match p s \<noteq> None)" for s
    by (auto simp: isYouTubeUrl_def extractYouTubeVideoId_def split: option.splits)
  have char: "getVideoPlatform s =
      (if \<exists>p\<in>set [youtube_pattern1, youtube_pattern2, youtube_pattern3]. rx_match p s \<noteq> None
       then YouTube
       else if rx_match vimeo_pattern s \<noteq> None then Vimeo else Direct)" for s
    unfolding getVideoPlatform_def yt_iff by (simp add: isVimeoUrl_def rx_test_def)
  have direct: "getVideoPlatform s = Direct"
    if y: "CHR ''y'' \<notin> set s" and v: "CHR ''v'' \<notin> set s" for s
  proof -
    have "rx_match vimeo_pattern s = None"
      using v unfolding vimeo_pattern_def by (induction s) auto
    then show ?thesis
      using no_y_not_youtube [OF y]
      by (simp add: getVideoPlatform_def isYouTubeUrl_def isVimeoUrl_def rx_test_def)
  qed
  have ex: "getVideoPlatform '''' = Direct"
    "getVideoPlatform ''http://[not a url'' = Direct"
    "getVideoPlatform ''https://example.com/lecture'' = Direct"
    by (simp_all add: direct)
  have "\<forall>c\<in>set ''dQw4w9WgXcQ''. id_char c"
    by (simp add: id_char_def)
  then have "rx_match youtube_pattern1 (''https://youtu.be/'' @ ''dQw4w9WgXcQ'') = Some (Some ''dQw4w9WgXcQ'')"
    by (intro pattern1_matches(2)) simp_all
  then have yt: "getVideoPlatform ''https://youtu.be/dQw4w9WgXcQ'' = YouTube"
    by (simp add: getVideoPlatform_def isYouTubeUrl_def extractYouTubeVideoId_def)
  have "\<forall>c\<in>set ''76979871''. is_digit c"
    by (simp add: is_digit_def)
  then have "rx_match vimeo_pattern (''https://vimeo.com/'' @ ''76979871'') = Some (Some ''76979871'')"
    by (intro vimeo_pattern_matches) simp_all
  moreover have "extractYouTubeVideoId ''https://vimeo.com/76979871'' = None"
    by (rule no_y_not_youtube) simp
  ultimately have vm: "getVideoPlatform ''https://vimeo.com/76979871'' = Vimeo"
    by (simp add: getVideoPlatform_def isYouTubeUrl_def isVimeoUrl_def rx_test_def)
  have sub: "range getVideoPlatform \<subseteq> {YouTube, Vimeo, Direct}"
    by (auto simp: getVideoPlatform_def)
  have "YouTube \<in> range getVideoPlatform" "Vimeo \<in> range getVideoPlatform"
    "Direct \<in> range getVideoPlatform"
    using yt vm ex(1) by (metis rangeI)+
  then have rng: "range getVideoPlatform = {YouTube, Vimeo, Direct}"
    using sub by blast
  have nu: "getVideoPlatform url \<noteq> Unknown"
    by (simp add: getVideoPlatform_def)
  have c1: "getVideoPlatform url = YouTube \<longleftrightarrow>
        (\<exists>p\<in>set [youtube_pattern1, youtube_pattern2, youtube_pattern3]. rx_match p url \<noteq> None)"
    unfolding char [of url] by simp
  have c2: "getVideoPlatform url = Vimeo \<longleftrightarrow>
        (\<forall>p\<in>set [youtube_pattern1, youtube_pattern2, youtube_pattern3]. rx_match p url = None)
        \<and> rx_match vimeo_pattern url \<noteq> None"
    unfolding char [of url] by simp
  have c3: "getVideoPlatform url = Direct \<longleftrightarrow>
        (\<forall>p\<in>set [youtube_pattern1, youtube_pattern2, youtube_pattern3]. rx_match p url = None)
        \<and> rx_match vimeo_pattern url = None"
    unfolding char [of url] by simp
  show ?thesis
    using rng nu c1 c2 c3 ex yt vm by blast
qed

theorem getVideoPlatform_range_witness:
  "rx_match youtube_pattern1 ''ftp://files/readme.txt'' = None
   \<and> rx_match youtube_pattern2 ''ftp://files/readme.txt'' = None
   \<and> rx_match youtube_pattern3 ''ftp://files/readme.txt'' = None
   \<and> rx_match vimeo_pattern ''ftp://files/readme.txt'' = None
   \<and> getVideoPlatform ''ftp://files/readme.txt'' = Direct
   \<and> getVideoPlatform ''https://youtu.be/dQw4w9WgXcQ'' = YouTube
   \<and> getVideoPlatform ''https://vimeo.com/76979871'' = Vimeo
   \<and> range getVideoPlatform = {YouTube, Vimeo, Direct}"
proof -
  have "CHR ''y'' \<notin> set ''ftp://files/readme.txt''"
    by simp
  then have y: "rx_match youtube_pattern1 ''ftp://files/readme.txt'' = None"
    "rx_match youtube_pattern2 ''ftp://files/readme.txt'' = None"
    "rx_match youtube_pattern3 ''ftp://files/readme.txt'' = None"
    unfolding youtube_pattern1_def youtube_pattern2_def youtube_pattern3_def
    by (rule no_y_no_match)+
  have v: "rx_match vimeo_pattern ''ftp://files/readme.txt'' = None"
    by (simp add: vimeo_pattern_def)
  show ?thesis
    using getVideoPlatform_range [of "''ftp://files/readme.txt''"] y v by simp
qed

section \<open>Results on the REST client\<close>

lemma paginate_fields:
  "p_page (pagination (paginate pg lmt v tot)) = pg"
  "p_limit (pagination (paginate pg lmt v tot)) = lmt"
  "p_total (pagination (paginate pg lmt v tot)) = tot"
  "hasNext (pagination (paginate pg lmt v tot)) = js_less pg (js_ceil (js_divide (ToNumber tot) lmt))"
  by (simp_all add: paginate_def Let_def)

lemma getVideosPaginated_is_paginate:
  assumes "getVideosPaginated JSON_parse f params = Inr r"
  shows "\<exists>pg lmt v tot. r = paginate pg lmt v tot"
  using assms
  by (auto simp: getVideosPaginated_def Let_def split: sum.splits json.splits option.splits if_splits)






section \<open>Results on thumbnails\<close>

lemma data_uri_nonempty: "data_uri svg \<noteq> []"
  by (simp add: data_uri_def)

lemma capture_resolved_nonempty: "capture es = Resolved u \<Longrightarrow> u \<noteq> []"
  by (induction es rule: capture.induct) (auto simp: data_uri_def)

lemma capture_after_metadata: "capture (replicate k LoadedMetadata @ es) = capture es"
  by (induction k) simp_all

lemma generate_resolved_nonempty:
  "generateVideoThumbnail URL_new here url events = Resolved u \<Longrightarrow> u \<noteq> []"
  by (auto simp: generateVideoThumbnail_def data_uri_def
           split: if_splits option.splits dest: capture_resolved_nonempty)

lemma getVideoThumbnail_nonempty: "getVideoThumbnail URL_new url \<noteq> []"
  by (simp add: getVideoThumbnail_def Let_def data_uri_def split: option.splits)




text \<open>
  The capture itself, evaluated: on the same host, a seek that finds no 2d context
  rejects the promise, and the calling component shows its placeholder.
\<close>

lemma canvas_failure_evaluated:
  "generateVideoThumbnail
     (map_of [(''http://localhost/a.mp4'',
               \<lparr>hostname = ''localhost'', pathname = ''/a.mp4'', searchParams = []\<rparr>)])
     ''localhost'' ''http://localhost/a.mp4'' [LoadedMetadata, Seeked NoContext]
   = Rejected ''Could not get canvas context''
   \<and> VideoThumbnail
     (map_of [(''http://localhost/a.mp4'',
               \<lparr>hostname = ''localhost'', pathname = ''/a.mp4'', searchParams = []\<rparr>)])
     ''localhost'' ''http://localhost/a.mp4'' [LoadedMetadata, Seeked NoContext]
   = data_uri (placeholderSvg 12)"
  by (simp add: VideoThumbnail_def generateVideoThumbnail_def parseVideoUrl_def youtube_branch_def
                vimeo_branch_def toLowerCase_def lower_char_def str_includes_def sublist_code
                Let_def videoExtensions_def endsWith_def suffix_to_prefix unknownPlatform_def
                isExternalDomain_def)

end
